theory Spec2Isabelle
  imports Main "HOL-Library.Sublist"
begin

section \<open>Configuration of the service worker (sw.js)\<close>

definition APP_VERSION :: string where
  "APP_VERSION = ''2.0.0''"

text \<open>\<^verbatim>\<open>APP_VERSION.replace(/\./g, '-')\<close>: every dot becomes a dash.\<close>

definition replace_dots :: "string \<Rightarrow> string" where
  "replace_dots s = map (\<lambda>c. if c = CHR ''.'' then CHR ''-'' else c) s"

definition CACHE_NAME :: string where
  "CACHE_NAME = ''pwa-cache-v'' @ replace_dots APP_VERSION"

definition OFFLINE_CACHE :: string where
  "OFFLINE_CACHE = ''offline-cache-v1''"

definition PRECACHE_ASSETS :: "string list" where
  "PRECACHE_ASSETS =
     [''/'', ''/index.html'', ''/manifest.json'', ''/favicon.ico'',
      ''/assets/css/styles.css'', ''/assets/css/fonts.css'',
      ''/assets/js/app.js'', ''/assets/js/vendor.js'',
      ''/assets/images/icon-192.png'', ''/assets/images/icon-512.png'',
      ''/assets/images/logo.svg'', ''/assets/images/fallback.jpg'',
      ''/assets/fonts/roboto.woff2'',
      ''/offline.html'']"

definition NETWORK_TIMEOUT :: nat where
  "NETWORK_TIMEOUT = 5000"

section \<open>Values, errors, responses\<close>

text \<open>
  JavaScript values as far as the worker inspects them: the data of a message event, the
  parsed payload of a push event, the object handed to \<^verbatim>\<open>JSON.stringify\<close>. An object
  is the list of its own properties. Numbers are the integral ones.
\<close>

datatype jsval =
    JUndefined
  | JNull
  | JBool bool
  | JNum int
  | JStr string
  | JArr "jsval list"
  | JObj "(string \<times> jsval) list"

text \<open>The exceptions the worker meets, each with its message.\<close>

datatype error =
    ReferenceError string
  | TypeError string
  | SyntaxError string
  | Error string

fun message :: "error \<Rightarrow> string" where
  "message (ReferenceError m) = m"
| "message (TypeError m) = m"
| "message (SyntaxError m) = m"
| "message (Error m) = m"

text \<open>
  A response body is text; \<open>Json v\<close> stands for the text \<^verbatim>\<open>JSON.stringify(v)\<close>.
\<close>

datatype body = Text string | Json jsval

record response =
  status :: nat
  headers :: "(string \<times> string) list"
  body :: body

text \<open>\<^verbatim>\<open>response.ok\<close>: the status is in the range 200 to 299.\<close>

definition ok :: "response \<Rightarrow> bool" where
  "ok r = (200 \<le> status r \<and> status r \<le> 299)"

text \<open>
  What a promise comes to. A promise of a response may be fulfilled with
  \<^verbatim>\<open>undefined\<close> (a \<^verbatim>\<open>match\<close> that finds nothing): \<open>Fulfilled None\<close>.
\<close>

datatype 'a promise =
    Fulfilled 'a
  | Rejected error
  | Pending

type_synonym outcome = "response option promise"

section \<open>The cache store\<close>

text \<open>
  The platform's \<^verbatim>\<open>caches\<close> object: named caches in creation order, each a list of
  entries keyed by the absolute URL of the request, in insertion order. The requests are
  the ones the fetch listener hands to a strategy: GET requests over http or https.
  Opening, matching and deleting always succeed; \<^verbatim>\<open>put\<close> refuses the responses the
  Cache interface refuses. Exhausted storage is outside the model.
\<close>

type_synonym cache = "(string \<times> response) list"
type_synonym store = "(string \<times> cache) list"

definition keys :: "store \<Rightarrow> string list" where
  "keys st = map fst st"

definition caches_open :: "string \<Rightarrow> store \<Rightarrow> store" where
  "caches_open n st = (if n \<in> set (keys st) then st else st @ [(n, [])])"

definition caches_delete :: "string \<Rightarrow> store \<Rightarrow> store" where
  "caches_delete n st = filter (\<lambda>(m, c). m \<noteq> n) st"

definition entry :: "store \<Rightarrow> string \<Rightarrow> string \<Rightarrow> response option" where
  "entry st n k = (case map_of st n of None \<Rightarrow> None | Some c \<Rightarrow> map_of c k)"

text \<open>\<^verbatim>\<open>cache.match(request)\<close> on the cache opened under the name \<open>n\<close>.\<close>

definition cache_match :: "string \<Rightarrow> string \<Rightarrow> store \<Rightarrow> response option" where
  "cache_match n k st = entry st n k"

text \<open>Storing an entry in the cache named \<open>n\<close>: an entry with the same key is replaced.\<close>

definition put_entry :: "string \<Rightarrow> response \<Rightarrow> cache \<Rightarrow> cache" where
  "put_entry k r c = filter (\<lambda>(k', r'). k' \<noteq> k) c @ [(k, r)]"

fun store_entry :: "string \<Rightarrow> string \<Rightarrow> response \<Rightarrow> store \<Rightarrow> store" where
  "store_entry n k r [] = []"
| "store_entry n k r ((m, c) # st) =
     (if m = n then (m, put_entry k r c) # st else (m, c) # store_entry n k r st)"

text \<open>
  The responses \<^verbatim>\<open>cache.put\<close> and \<^verbatim>\<open>cache.addAll\<close> refuse with a TypeError:
  those of status 206, and those with a header named \<^verbatim>\<open>Vary\<close> (in any case of
  letters) one of whose comma-separated values is \<^verbatim>\<open>*\<close>.
\<close>

definition lower :: "char \<Rightarrow> char" where
  "lower c =
     (case map_of (zip ''ABCDEFGHIJKLMNOPQRSTUVWXYZ'' ''abcdefghijklmnopqrstuvwxyz'') c of
        Some l \<Rightarrow> l
      | None \<Rightarrow> c)"

fun split_commas :: "string \<Rightarrow> string list" where
  "split_commas [] = [[]]"
| "split_commas (c # cs) =
     (if c = CHR '','' then [] # split_commas cs
      else (case split_commas cs of
              [] \<Rightarrow> [[c]]
            | w # ws \<Rightarrow> (c # w) # ws))"

definition is_space :: "char \<Rightarrow> bool" where
  "is_space c = (c = CHR '' '' \<or> c = CHR 0x09)"

definition trim :: "string \<Rightarrow> string" where
  "trim s = rev (dropWhile is_space (rev (dropWhile is_space s)))"

definition vary_star :: "response \<Rightarrow> bool" where
  "vary_star r =
     list_ex (\<lambda>h. map lower (fst h) = ''vary'' \<and>
                   list_ex (\<lambda>v. trim v = ''*'') (split_commas (snd h)))
       (headers r)"

definition put_refused :: "response \<Rightarrow> bool" where
  "put_refused r = (status r = 206 \<or> vary_star r)"

text \<open>
  \<^verbatim>\<open>cache.put(request, response)\<close> on the cache opened under the name \<open>n\<close>: the
  promise is rejected for a response the cache refuses, and nothing is stored then.
\<close>

definition cache_put :: "string \<Rightarrow> string \<Rightarrow> response \<Rightarrow> store \<Rightarrow> error + store" where
  "cache_put n k r st =
     (if put_refused r then Inl (TypeError ''Cache.put: the response cannot be stored'')
      else Inr (store_entry n k r st))"

text \<open>
  The step four strategies share,
  \<^verbatim>\<open>if (response.ok) cache.put(request, response.clone())\<close>, where nothing awaits
  the promise of \<^verbatim>\<open>put\<close>: when it is rejected the store stays as it was.
\<close>

definition put_if_ok :: "string \<Rightarrow> string \<Rightarrow> response \<Rightarrow> store \<Rightarrow> store" where
  "put_if_ok n k r st =
     (if ok r then (case cache_put n k r st of Inl err \<Rightarrow> st | Inr st' \<Rightarrow> st') else st)"

text \<open>\<^verbatim>\<open>caches.match(url)\<close>: the first cache, in creation order, that has the key.\<close>

fun caches_match :: "string \<Rightarrow> store \<Rightarrow> response option" where
  "caches_match k [] = None"
| "caches_match k ((n, c) # st) =
     (case map_of c k of Some r \<Rightarrow> Some r | None \<Rightarrow> caches_match k st)"

section \<open>The platform around the worker\<close>

text \<open>
  A fetch settles after some milliseconds, with a response or with an error, or it never
  settles.
\<close>

datatype fetch_result = Settles nat "error + response" | NeverSettles

text \<open>
  \<open>fetch\<close>: what the network does with a request for an absolute URL;
  \<open>resolve\<close>: the absolute URL of a URL string, relative to the worker's location;
  \<open>pathname\<close>: \<^verbatim>\<open>new URL(url).pathname\<close>;
  \<open>toISOString\<close>: \<^verbatim>\<open>new Date().toISOString()\<close>;
  \<open>now\<close>: \<^verbatim>\<open>Date.now()\<close>.
\<close>

record env =
  fetch :: "string \<Rightarrow> fetch_result"
  resolve :: "string \<Rightarrow> string"
  pathname :: "string \<Rightarrow> string"
  toISOString :: string
  now :: int

record request =
  req_method :: string
  url :: string
  accept :: "string option"

text \<open>
  What a strategy does with one request: what the promise it returns comes to, the URLs
  it fetched, and the cache store once everything it started has settled. The rejection
  of a promise that nothing awaits is not recorded.
\<close>

record run =
  outcome :: outcome
  fetched :: "string list"
  store :: store

section \<open>Strategy 1: network first with cache fallback (API calls)\<close>

text \<open>
  \<^verbatim>\<open>Promise.race([networkPromise, timeoutPromise])\<close>: the fetch wins when it settles
  before the timer of \<open>NETWORK_TIMEOUT\<close> milliseconds rejects; a fetch that settles in
  the millisecond of the timer counts as late. Nothing but the race is chained on
  \<^verbatim>\<open>networkPromise\<close>, so the result of a fetch that loses the race is dropped.
\<close>

definition race :: "fetch_result \<Rightarrow> error + response" where
  "race f =
     (case f of
        Settles t r \<Rightarrow> if t < NETWORK_TIMEOUT then r else Inl (Error ''Network timeout'')
      | NeverSettles \<Rightarrow> Inl (Error ''Network timeout''))"

definition offline_api_response :: "string \<Rightarrow> response" where
  "offline_api_response ts =
     \<lparr>status = 503,
      headers = [(''Content-Type'', ''application/json'')],
      body = Json (JObj [(''error'', JStr ''You are offline''),
                         (''timestamp'', JStr ts),
                         (''cached'', JBool True)])\<rparr>"

text \<open>The \<^verbatim>\<open>catch\<close> block of \<^verbatim>\<open>handleApiRequest\<close>.\<close>

definition api_fallback :: "env \<Rightarrow> store \<Rightarrow> request \<Rightarrow> run" where
  "api_fallback e st1 request =
     (case cache_match CACHE_NAME (url request) st1 of
        Some cachedResponse \<Rightarrow>
          \<lparr>outcome = Fulfilled (Some cachedResponse), fetched = [url request], store = st1\<rparr>
      | None \<Rightarrow>
          \<lparr>outcome = Fulfilled (Some (offline_api_response (toISOString e))),
           fetched = [url request], store = st1\<rparr>)"

text \<open>
  The \<^verbatim>\<open>try\<close> block awaits the race and then, for an ok response, the promise of
  \<^verbatim>\<open>cache.put\<close>: a rejection of either one enters the \<^verbatim>\<open>catch\<close> block.
\<close>

definition handleApiRequest :: "env \<Rightarrow> store \<Rightarrow> request \<Rightarrow> run" where
  "handleApiRequest e st request =
     (let st1 = caches_open CACHE_NAME st in
      case race (fetch e (url request)) of
        Inr response \<Rightarrow>
          (if ok response
           then (case cache_put CACHE_NAME (url request) response st1 of
                   Inr st2 \<Rightarrow>
                     \<lparr>outcome = Fulfilled (Some response),
                      fetched = [url request], store = st2\<rparr>
                 | Inl error \<Rightarrow> api_fallback e st1 request)
           else \<lparr>outcome = Fulfilled (Some response),
                 fetched = [url request], store = st1\<rparr>)
      | Inl error \<Rightarrow> api_fallback e st1 request)"

section \<open>Strategy 2: cache first, network update (images)\<close>

text \<open>
  The names a function body of sw.js can refer to besides its own parameters and locals:
  the declarations at the top level of the file, and the names of the worker's global
  scope that the file uses.
\<close>

definition sw_declarations :: "string list" where
  "sw_declarations =
     [''APP_VERSION'', ''CACHE_NAME'', ''OFFLINE_CACHE'', ''PRECACHE_ASSETS'',
      ''RUNTIME_CACHE_PATHS'', ''NETWORK_TIMEOUT'',
      ''handleApiRequest'', ''handleImageRequest'', ''handleAssetRequest'',
      ''handleHtmlRequest'', ''networkFirstWithCache'',
      ''syncPendingPosts'', ''syncSettings'', ''updateContent'',
      ''sendMessageToClients'', ''clearCache'', ''updateAssets'',
      ''openDatabase'', ''getSettingsFromIndexedDB'', ''reportError'']"

definition worker_globals :: "string list" where
  "worker_globals =
     [''self'', ''caches'', ''clients'', ''fetch'', ''console'', ''indexedDB'', ''navigator'',
      ''setTimeout'', ''Promise'', ''Response'', ''URL'', ''Error'', ''JSON'', ''Date'']"

definition sw_scope :: "string list" where
  "sw_scope = sw_declarations @ worker_globals"

text \<open>
  In the branch of a cached image the body evaluates \<^verbatim>\<open>event.waitUntil(...)\<close>.
  \<^verbatim>\<open>event\<close> is neither a parameter nor a local of \<^verbatim>\<open>handleImageRequest\<close>, so
  it is looked up in the enclosing scope before the argument (the background fetch) is
  evaluated; an unbound name raises a ReferenceError, which rejects the promise of the
  async function.
\<close>

definition handleImageRequest :: "string list \<Rightarrow> env \<Rightarrow> store \<Rightarrow> request \<Rightarrow> run" where
  "handleImageRequest scope e st request =
     (let st1 = caches_open CACHE_NAME st in
      case cache_match CACHE_NAME (url request) st1 of
        Some cachedResponse \<Rightarrow>
          (if ''event'' \<in> set scope then
             \<lparr>outcome = Fulfilled (Some cachedResponse),
              fetched = [url request],
              store = (case fetch e (url request) of
                         Settles t (Inr networkResponse) \<Rightarrow>
                           put_if_ok CACHE_NAME (url request) networkResponse st1
                       | Settles t (Inl error) \<Rightarrow> st1
                       | NeverSettles \<Rightarrow> st1)\<rparr>
           else
             \<lparr>outcome = Rejected (ReferenceError ''event is not defined''),
              fetched = [],
              store = st1\<rparr>)
      | None \<Rightarrow>
          (case fetch e (url request) of
             Settles t (Inr networkResponse) \<Rightarrow>
               \<lparr>outcome = Fulfilled (Some networkResponse),
                fetched = [url request],
                store = put_if_ok CACHE_NAME (url request) networkResponse st1\<rparr>
           | Settles t (Inl error) \<Rightarrow>
               \<lparr>outcome = Fulfilled (caches_match (resolve e ''/assets/images/fallback.jpg'') st1),
                fetched = [url request],
                store = st1\<rparr>
           | NeverSettles \<Rightarrow>
               \<lparr>outcome = Pending, fetched = [url request], store = st1\<rparr>))"

section \<open>Strategy 3: stale while revalidate (CSS and JS assets)\<close>

definition handleAssetRequest :: "env \<Rightarrow> store \<Rightarrow> request \<Rightarrow> run" where
  "handleAssetRequest e st request =
     (let st1 = caches_open CACHE_NAME st;
          cachedResponse = cache_match CACHE_NAME (url request) st1;
          networkPromise =
            (case fetch e (url request) of
               Settles t (Inr networkResponse) \<Rightarrow> Fulfilled (Some networkResponse)
             | Settles t (Inl error) \<Rightarrow>
                 (case cachedResponse of
                    Some c \<Rightarrow> Fulfilled (Some c)
                  | None \<Rightarrow> Rejected (Error ''Network failed and no cache available''))
             | NeverSettles \<Rightarrow> Pending);
          st2 =
            (case fetch e (url request) of
               Settles t (Inr networkResponse) \<Rightarrow>
                 put_if_ok CACHE_NAME (url request) networkResponse st1
             | Settles t (Inl error) \<Rightarrow> st1
             | NeverSettles \<Rightarrow> st1)
      in case cachedResponse of
           Some c \<Rightarrow> \<lparr>outcome = Fulfilled (Some c), fetched = [url request], store = st2\<rparr>
         | None \<Rightarrow> \<lparr>outcome = networkPromise, fetched = [url request], store = st2\<rparr>)"

section \<open>Strategy 4: network first for HTML, and the default strategy\<close>

definition handleHtmlRequest :: "env \<Rightarrow> store \<Rightarrow> request \<Rightarrow> run" where
  "handleHtmlRequest e st request =
     (case fetch e (url request) of
        Settles t (Inr networkResponse) \<Rightarrow>
          \<lparr>outcome = Fulfilled (Some networkResponse),
           fetched = [url request],
           store = (if ok networkResponse
                    then put_if_ok CACHE_NAME (url request) networkResponse
                           (caches_open CACHE_NAME st)
                    else st)\<rparr>
      | Settles t (Inl error) \<Rightarrow>
          (let st1 = caches_open CACHE_NAME st in
           case cache_match CACHE_NAME (url request) st1 of
             Some cachedResponse \<Rightarrow>
               \<lparr>outcome = Fulfilled (Some cachedResponse), fetched = [url request], store = st1\<rparr>
           | None \<Rightarrow>
               \<lparr>outcome = Fulfilled (caches_match (resolve e ''/offline.html'') st1),
                fetched = [url request], store = st1\<rparr>)
      | NeverSettles \<Rightarrow>
          \<lparr>outcome = Pending, fetched = [url request], store = st\<rparr>)"

definition no_cache_response :: response where
  "no_cache_response =
     \<lparr>status = 408,
      headers = [(''Content-Type'', ''text/plain'')],
      body = Text ''Network error and no cache available''\<rparr>"

definition networkFirstWithCache :: "env \<Rightarrow> store \<Rightarrow> request \<Rightarrow> run" where
  "networkFirstWithCache e st request =
     (case fetch e (url request) of
        Settles t (Inr networkResponse) \<Rightarrow>
          \<lparr>outcome = Fulfilled (Some networkResponse),
           fetched = [url request],
           store = (if ok networkResponse
                    then put_if_ok CACHE_NAME (url request) networkResponse
                           (caches_open CACHE_NAME st)
                    else st)\<rparr>
      | Settles t (Inl error) \<Rightarrow>
          (let st1 = caches_open CACHE_NAME st in
           case cache_match CACHE_NAME (url request) st1 of
             Some cachedResponse \<Rightarrow>
               \<lparr>outcome = Fulfilled (Some cachedResponse), fetched = [url request], store = st1\<rparr>
           | None \<Rightarrow>
               \<lparr>outcome = Fulfilled (Some no_cache_response),
                fetched = [url request], store = st1\<rparr>)
      | NeverSettles \<Rightarrow>
          \<lparr>outcome = Pending, fetched = [url request], store = st\<rparr>)"

section \<open>The fetch listener\<close>

definition startsWith :: "string \<Rightarrow> string \<Rightarrow> bool" where
  "startsWith s p = prefix p s"

definition str_includes :: "string \<Rightarrow> string \<Rightarrow> bool" where
  "str_includes s p = sublist p s"

text \<open>
  The listener leaves a request alone (\<open>PassThrough\<close>: it returns without
  \<^verbatim>\<open>respondWith\<close>) or answers it with the promise of one strategy.
\<close>

datatype interception = PassThrough | RespondWith run

definition fetch_listener :: "env \<Rightarrow> store \<Rightarrow> request \<Rightarrow> interception" where
  "fetch_listener e st request =
     (if req_method request \<noteq> ''GET'' \<or>
         startsWith (url request) ''chrome-extension://'' \<or>
         str_includes (url request) ''sockjs-node''
      then PassThrough
      else if startsWith (pathname e (url request)) ''/api/''
      then RespondWith (handleApiRequest e st request)
      else if startsWith (pathname e (url request)) ''/assets/images/''
      then RespondWith (handleImageRequest sw_scope e st request)
      else if startsWith (pathname e (url request)) ''/assets/''
      then RespondWith (handleAssetRequest e st request)
      else if (case accept request of None \<Rightarrow> False | Some a \<Rightarrow> str_includes a ''text/html'')
      then RespondWith (handleHtmlRequest e st request)
      else RespondWith (networkFirstWithCache e st request))"

section \<open>The install listener\<close>

text \<open>
  \<^verbatim>\<open>cache.addAll(urls)\<close> on the cache opened under the name \<open>n\<close> (and
  \<^verbatim>\<open>cache.add(url)\<close>, the same with one URL): every URL is fetched; the promise
  rejects when one fetch fails, one response is not ok or one response is refused by the
  cache, and then nothing is stored.
\<close>

definition fetch_failed :: "fetch_result \<Rightarrow> bool" where
  "fetch_failed f =
     (case f of
        Settles t (Inr r) \<Rightarrow> \<not> ok r \<or> put_refused r
      | Settles t (Inl err) \<Rightarrow> True
      | NeverSettles \<Rightarrow> False)"

fun store_all :: "env \<Rightarrow> string \<Rightarrow> string list \<Rightarrow> store \<Rightarrow> store" where
  "store_all e n [] st = st"
| "store_all e n (u # us) st =
     store_all e n us
       (case fetch e (resolve e u) of
          Settles t (Inr r) \<Rightarrow> store_entry n (resolve e u) r st
        | Settles t (Inl err) \<Rightarrow> st
        | NeverSettles \<Rightarrow> st)"

definition addAll :: "env \<Rightarrow> string \<Rightarrow> string list \<Rightarrow> store \<Rightarrow> unit promise \<times> store" where
  "addAll e n urls st =
     (if list_ex (\<lambda>u. fetch_failed (fetch e (resolve e u))) urls
      then (Rejected (TypeError ''Request failed''), st)
      else if list_ex (\<lambda>u. fetch e (resolve e u) = NeverSettles) urls
      then (Pending, st)
      else (Fulfilled (), store_all e n urls st))"

text \<open>
  \<^verbatim>\<open>Promise.all\<close> of two promises: rejected as soon as one is rejected, fulfilled
  when both are. When both are rejected the error kept here is the first one's.
\<close>

fun all2 :: "unit promise \<Rightarrow> unit promise \<Rightarrow> unit promise" where
  "all2 (Rejected err) q = Rejected err"
| "all2 p (Rejected err) = Rejected err"
| "all2 Pending q = Pending"
| "all2 p Pending = Pending"
| "all2 (Fulfilled u) (Fulfilled v) = Fulfilled ()"

text \<open>
  What the install listener leaves behind: whether \<^verbatim>\<open>skipWaiting\<close> was called,
  the promise handed to \<^verbatim>\<open>event.waitUntil\<close> (the installation succeeds when it is
  fulfilled and fails when it is rejected), the lines written to the console, and the
  cache store.
\<close>

record installation =
  skipWaiting :: bool
  waitUntil :: "unit promise"
  console :: "string list"
  installed :: store

definition install_listener :: "env \<Rightarrow> store \<Rightarrow> installation" where
  "install_listener e st =
     (let st1 = caches_open CACHE_NAME st;
          core = addAll e CACHE_NAME PRECACHE_ASSETS st1;
          st2 = caches_open OFFLINE_CACHE (snd core);
          offline = addAll e OFFLINE_CACHE [''/offline.html''] st2;
          both = all2 (fst core) (fst offline)
      in \<lparr>skipWaiting = True,
          waitUntil =
            (case both of
               Fulfilled u \<Rightarrow> Fulfilled ()
             | Rejected error \<Rightarrow> Fulfilled ()
             | Pending \<Rightarrow> Pending),
          console =
            [''[Service Worker] Installing version '' @ APP_VERSION,
             ''[Service Worker] Caching core assets''] @
            (if fst core = Fulfilled () then [''[Service Worker] All assets cached''] else []) @
            (case both of
               Fulfilled u \<Rightarrow> []
             | Rejected error \<Rightarrow> [''[Service Worker] Installation failed:'']
             | Pending \<Rightarrow> []),
          installed = snd offline\<rparr>)"

section \<open>The activate listener\<close>

text \<open>The callback mapped over \<^verbatim>\<open>cacheNames\<close>.\<close>

definition delete_old :: "string \<Rightarrow> store \<Rightarrow> store" where
  "delete_old cacheName st =
     (if cacheName \<noteq> CACHE_NAME \<and> cacheName \<noteq> OFFLINE_CACHE
      then caches_delete cacheName st else st)"

definition sendMessageToClients :: "jsval \<Rightarrow> nat list \<Rightarrow> (nat \<times> jsval) list" where
  "sendMessageToClients msg clients = map (\<lambda>client. (client, msg)) clients"

record activation =
  activated :: store
  claimed :: bool
  broadcast :: "(nat \<times> jsval) list"

definition activate_listener :: "store \<Rightarrow> nat list \<Rightarrow> activation" where
  "activate_listener st clients =
     \<lparr>activated = fold delete_old (keys st) st,
      claimed = True,
      broadcast =
        sendMessageToClients
          (JObj [(''type'', JStr ''SW_ACTIVATED''), (''version'', JStr APP_VERSION)])
          clients\<rparr>"

section \<open>Reading JavaScript values\<close>

text \<open>
  \<^verbatim>\<open>v.k\<close> for the property names sw.js reads (none of them is a built-in property
  of strings, numbers, booleans or arrays): a TypeError on \<^verbatim>\<open>null\<close> and
  \<^verbatim>\<open>undefined\<close>, the own property of an object, \<^verbatim>\<open>undefined\<close> otherwise.
\<close>

fun get_prop :: "jsval \<Rightarrow> string \<Rightarrow> error + jsval" where
  "get_prop JUndefined k = Inl (TypeError (''Cannot read properties of undefined: '' @ k))"
| "get_prop JNull k = Inl (TypeError (''Cannot read properties of null: '' @ k))"
| "get_prop (JObj fs) k = Inr (case map_of fs k of Some v \<Rightarrow> v | None \<Rightarrow> JUndefined)"
| "get_prop v k = Inr JUndefined"

definition field :: "jsval \<Rightarrow> string \<Rightarrow> jsval" where
  "field v k = (case get_prop v k of Inl err \<Rightarrow> JUndefined | Inr x \<Rightarrow> x)"

fun truthy :: "jsval \<Rightarrow> bool" where
  "truthy JUndefined = False"
| "truthy JNull = False"
| "truthy (JBool b) = b"
| "truthy (JNum n) = (n \<noteq> 0)"
| "truthy (JStr s) = (s \<noteq> [])"
| "truthy (JArr xs) = True"
| "truthy (JObj fs) = True"

text \<open>\<^verbatim>\<open>v || d\<close>\<close>

definition or_default :: "jsval \<Rightarrow> jsval \<Rightarrow> jsval" where
  "or_default v d = (if truthy v then v else d)"

definition digit :: "nat \<Rightarrow> char" where
  "digit n = ''0123456789'' ! (n mod 10)"

function show_nat :: "nat \<Rightarrow> string" where
  "show_nat n = (if n < 10 then [digit n] else show_nat (n div 10) @ [digit n])"
  by pat_completeness auto
termination
  by (relation "measure id") auto

definition show_int :: "int \<Rightarrow> string" where
  "show_int i = (if i < 0 then CHR ''-'' # show_nat (nat (- i)) else show_nat (nat i))"

fun join :: "string list \<Rightarrow> string" where
  "join [] = []"
| "join [x] = x"
| "join (x # y # ys) = x @ '','' @ join (y # ys)"

text \<open>The conversion of a value to a string, as \<^verbatim>\<open>fetch(url)\<close> applies it.\<close>

fun toString :: "jsval \<Rightarrow> string" where
  "toString JUndefined = ''undefined''"
| "toString JNull = ''null''"
| "toString (JBool b) = (if b then ''true'' else ''false'')"
| "toString (JNum n) = show_int n"
| "toString (JStr s) = s"
| "toString (JArr xs) =
     join (map (\<lambda>x. if x = JUndefined \<or> x = JNull then [] else toString x) xs)"
| "toString (JObj fs) = ''[object Object]''"

text \<open>\<^verbatim>\<open>for (const url of urls)\<close>: arrays and strings can be iterated.\<close>

fun iterate :: "jsval \<Rightarrow> error + jsval list" where
  "iterate (JArr xs) = Inr xs"
| "iterate (JStr s) = Inr (map (\<lambda>c. JStr [c]) s)"
| "iterate v = Inl (TypeError ''urls is not iterable'')"

section \<open>The message listener\<close>

text \<open>
  What a listener does, in order: calls of \<^verbatim>\<open>skipWaiting\<close>, deletions of named
  caches, messages posted on a port.
\<close>

datatype action = SkipWaiting | CacheDelete string | PostMessage nat jsval

text \<open>
  What the message listener leaves behind: the exception that left the listener, the
  rejection of a promise that nothing handles, its actions and the cache store.
\<close>

record reaction =
  thrown :: "error option"
  unhandled :: "error option"
  actions :: "action list"
  caches :: store

definition clearCache :: "store \<Rightarrow> action list \<times> store" where
  "clearCache st = (map CacheDelete (keys st), fold caches_delete (keys st) st)"

text \<open>
  \<^verbatim>\<open>event.ports[0].postMessage(v)\<close>: without a port, \<^verbatim>\<open>event.ports[0]\<close> is
  \<^verbatim>\<open>undefined\<close> and the call raises a TypeError.
\<close>

definition post_reply :: "nat list \<Rightarrow> jsval \<Rightarrow> error + action" where
  "post_reply ports v =
     (case ports of
        [] \<Rightarrow> Inl (TypeError ''Cannot read properties of undefined: postMessage'')
      | port # rest \<Rightarrow> Inr (PostMessage port v))"

text \<open>
  The loop of \<^verbatim>\<open>updateAssets\<close>: the results so far and the store; no results when a
  fetch never settles.
\<close>

fun update_loop :: "env \<Rightarrow> jsval list \<Rightarrow> jsval list \<Rightarrow> store \<Rightarrow> jsval list option \<times> store" where
  "update_loop e [] results st = (Some results, st)"
| "update_loop e (u # us) results st =
     (case fetch e (resolve e (toString u)) of
        Settles t (Inr response) \<Rightarrow>
          if ok response
          then (case cache_put CACHE_NAME (resolve e (toString u)) response st of
                  Inr st' \<Rightarrow>
                    update_loop e us
                      (results @ [JObj [(''url'', u), (''status'', JStr ''updated'')]])
                      st'
                | Inl error \<Rightarrow>
                    update_loop e us
                      (results @ [JObj [(''url'', u), (''status'', JStr ''failed''),
                                        (''error'', JStr (message error))]])
                      st)
          else update_loop e us
                 (results @ [JObj [(''url'', u), (''status'', JStr ''failed''),
                                   (''error'', JStr ''Network error'')]])
                 st
      | Settles t (Inl error) \<Rightarrow>
          update_loop e us
            (results @ [JObj [(''url'', u), (''status'', JStr ''failed''),
                              (''error'', JStr (message error))]])
            st
      | NeverSettles \<Rightarrow> (None, st))"

definition updateAssets :: "env \<Rightarrow> jsval \<Rightarrow> store \<Rightarrow> jsval promise \<times> store" where
  "updateAssets e urls st =
     (let st1 = caches_open CACHE_NAME st in
      case iterate urls of
        Inl err \<Rightarrow> (Rejected err, st1)
      | Inr us \<Rightarrow>
          (case update_loop e us [] st1 of
             (Some results, st2) \<Rightarrow> (Fulfilled (JArr results), st2)
           | (None, st2) \<Rightarrow> (Pending, st2)))"

definition message_listener :: "env \<Rightarrow> store \<Rightarrow> jsval \<Rightarrow> nat list \<Rightarrow> reaction" where
  "message_listener e st data ports =
     (case get_prop data ''type'' of
        Inl err \<Rightarrow> \<lparr>thrown = Some err, unhandled = None, actions = [], caches = st\<rparr>
      | Inr ty \<Rightarrow>
          if ty = JStr ''SKIP_WAITING''
          then \<lparr>thrown = None, unhandled = None, actions = [SkipWaiting], caches = st\<rparr>
          else if ty = JStr ''GET_CACHE_INFO''
          then (case post_reply ports
                       (JObj [(''cacheName'', JStr CACHE_NAME), (''version'', JStr APP_VERSION)]) of
                  Inl err \<Rightarrow> \<lparr>thrown = Some err, unhandled = None, actions = [], caches = st\<rparr>
                | Inr a \<Rightarrow> \<lparr>thrown = None, unhandled = None, actions = [a], caches = st\<rparr>)
          else if ty = JStr ''CLEAR_CACHE''
          then (case post_reply ports (JObj [(''success'', JBool True)]) of
                  Inl err \<Rightarrow>
                    \<lparr>thrown = None, unhandled = Some err,
                     actions = fst (clearCache st), caches = snd (clearCache st)\<rparr>
                | Inr a \<Rightarrow>
                    \<lparr>thrown = None, unhandled = None,
                     actions = fst (clearCache st) @ [a], caches = snd (clearCache st)\<rparr>)
          else if ty = JStr ''UPDATE_ASSETS''
          then (case updateAssets e (field data ''urls'') st of
                  (Rejected err, st1) \<Rightarrow>
                    \<lparr>thrown = None, unhandled = Some err, actions = [], caches = st1\<rparr>
                | (Pending, st1) \<Rightarrow>
                    \<lparr>thrown = None, unhandled = None, actions = [], caches = st1\<rparr>
                | (Fulfilled result, st1) \<Rightarrow>
                    (case post_reply ports result of
                       Inl err \<Rightarrow>
                         \<lparr>thrown = None, unhandled = Some err, actions = [], caches = st1\<rparr>
                     | Inr a \<Rightarrow>
                         \<lparr>thrown = None, unhandled = None, actions = [a], caches = st1\<rparr>))
          else \<lparr>thrown = None, unhandled = None, actions = [], caches = st\<rparr>)"

section \<open>The push listener\<close>

text \<open>
  \<^verbatim>\<open>event.data\<close> of a push event is absent or carries a payload;
  \<^verbatim>\<open>event.data.json()\<close> raises a SyntaxError on a payload that is not JSON and
  returns the parsed value otherwise. What the listener leaves behind: the exception that
  left it, and its calls of \<^verbatim>\<open>self.registration.showNotification(title, options)\<close>;
  whether the platform then displays the notification is not part of the model.
\<close>

datatype push_data = NotJson | Payload jsval

record notification =
  title :: jsval
  options :: "(string \<times> jsval) list"

record push_reaction =
  raised :: "error option"
  showNotification :: "notification list"

definition push_options :: "env \<Rightarrow> jsval \<Rightarrow> (string \<times> jsval) list" where
  "push_options e d =
     [(''body'', or_default (field d ''body'') (JStr ''New notification'')),
      (''icon'', or_default (field d ''icon'') (JStr ''/assets/images/icon-192.png'')),
      (''badge'', JStr ''/assets/images/badge-72.png''),
      (''image'', field d ''image''),
      (''data'', or_default (field d ''data'') (JObj [])),
      (''actions'', or_default (field d ''actions'') (JArr [])),
      (''tag'', or_default (field d ''tag'') (JStr ''default'')),
      (''requireInteraction'', or_default (field d ''requireInteraction'') (JBool False)),
      (''silent'', or_default (field d ''silent'') (JBool False)),
      (''timestamp'', or_default (field d ''timestamp'') (JNum (now e))),
      (''vibrate'', or_default (field d ''vibrate'') (JArr [JNum 200, JNum 100, JNum 200]))]"

definition push_listener :: "env \<Rightarrow> push_data option \<Rightarrow> push_reaction" where
  "push_listener e event_data =
     (case event_data of
        None \<Rightarrow> \<lparr>raised = None, showNotification = []\<rparr>
      | Some NotJson \<Rightarrow>
          \<lparr>raised = Some (SyntaxError ''Unexpected token in JSON''), showNotification = []\<rparr>
      | Some (Payload d) \<Rightarrow>
          (case get_prop d ''body'' of
             Inl err \<Rightarrow> \<lparr>raised = Some err, showNotification = []\<rparr>
           | Inr b \<Rightarrow>
               \<lparr>raised = None,
                showNotification = [\<lparr>title = or_default (field d ''title'') (JStr ''My PWA''),
                          options = push_options e d\<rparr>]\<rparr>))"

section \<open>Concrete requests, responses and platforms\<close>

definition widgets :: response where
  "widgets = \<lparr>status = 200, headers = [(''Content-Type'', ''application/json'')],
              body = Text ''{id:1}''\<rparr>"

definition not_found :: response where
  "not_found = \<lparr>status = 404, headers = [], body = Text ''Not Found''\<rparr>"

definition stale :: response where
  "stale = \<lparr>status = 200, headers = [], body = Text ''old''\<rparr>"

definition fresh :: response where
  "fresh = \<lparr>status = 200, headers = [], body = Text ''new''\<rparr>"

text \<open>Two successful responses that the cache refuses.\<close>

definition partial_content :: response where
  "partial_content = \<lparr>status = 206, headers = [], body = Text ''part''\<rparr>"

definition varying :: response where
  "varying = \<lparr>status = 200, headers = [(''Vary'', ''*'')], body = Text ''any''\<rparr>"

text \<open>A network that treats every URL alike.\<close>

definition always :: "fetch_result \<Rightarrow> string \<Rightarrow> fetch_result" where
  "always f u = f"

text \<open>A network on which only the favicon is missing.\<close>

definition favicon_missing :: "string \<Rightarrow> fetch_result" where
  "favicon_missing u =
     (if u = ''https://app.example/favicon.ico'' then Settles 80 (Inr not_found)
      else Settles 80 (Inr fresh))"

text \<open>A worker served from \<^verbatim>\<open>https://app.example\<close> (19 characters).\<close>

definition platform :: "(string \<Rightarrow> fetch_result) \<Rightarrow> env" where
  "platform f =
     \<lparr>fetch = f,
      resolve = append ''https://app.example'',
      pathname = drop 19,
      toISOString = ''2024-01-01T00:00:00.000Z'',
      now = 1704067200000\<rparr>"

definition get_request :: "string \<Rightarrow> request" where
  "get_request u = \<lparr>req_method = ''GET'', url = u, accept = None\<rparr>"

section \<open>Facts about the cache store\<close>

lemma map_of_put_entry:
  "map_of (put_entry k r c) k' = (if k' = k then Some r else map_of c k')"
  by (induction c) (auto simp: put_entry_def)

lemma map_of_absent: "n \<notin> set (keys st) \<Longrightarrow> map_of st n = None"
  by (simp add: keys_def map_of_eq_None_iff)

lemma entry_caches_open: "entry (caches_open n st) m k = entry st m k"
  by (auto simp: entry_def caches_open_def map_add_def map_of_absent split: option.splits)

lemma keys_caches_open: "n \<in> set (keys (caches_open n st))"
  by (simp add: caches_open_def keys_def)

lemma entry_store_entry:
  "entry (store_entry n k r st) m k' =
     (if m = n \<and> k' = k \<and> n \<in> set (keys st) then Some r else entry st m k')"
  by (induction st) (force simp: entry_def keys_def map_of_put_entry)+

lemma put_if_ok_not_ok: "\<not> ok r \<Longrightarrow> put_if_ok n k r st = st"
  by (simp add: put_if_ok_def)

lemma cache_put_accepted:
  "\<not> put_refused r \<Longrightarrow> cache_put n k r st = Inr (store_entry n k r st)"
  by (simp add: cache_put_def)

lemma cache_put_refused:
  "put_refused r \<Longrightarrow>
     cache_put n k r st = Inl (TypeError ''Cache.put: the response cannot be stored'')"
  by (simp add: cache_put_def)

lemma put_if_ok_accepted:
  "ok r \<Longrightarrow> \<not> put_refused r \<Longrightarrow> put_if_ok n k r st = store_entry n k r st"
  by (simp add: put_if_ok_def cache_put_def)

lemma put_if_ok_refused: "put_refused r \<Longrightarrow> put_if_ok n k r st = st"
  by (simp add: put_if_ok_def cache_put_def)

lemma put_refused_iff: "put_refused r \<longleftrightarrow> status r = 206 \<or> vary_star r"
  by (simp add: put_refused_def)

lemma keys_caches_delete: "keys (caches_delete a st) = filter (\<lambda>n. n \<noteq> a) (keys st)"
  by (induction st) (auto simp: keys_def caches_delete_def)

lemma keys_fold_caches_delete:
  "keys (fold caches_delete ns st) = filter (\<lambda>n. n \<notin> set ns) (keys st)"
  by (induction ns arbitrary: st) (auto simp: keys_caches_delete intro: filter_cong)

lemma fold_delete_all: "fold caches_delete (keys st) st = []"
proof -
  have "keys (fold caches_delete (keys st) st) = []"
    by (simp add: keys_fold_caches_delete)
  then show ?thesis by (simp add: keys_def)
qed

lemma keys_fold_delete_old:
  "keys (fold delete_old ns st) =
     filter (\<lambda>n. n \<notin> set ns \<or> n = CACHE_NAME \<or> n = OFFLINE_CACHE) (keys st)"
  by (induction ns arbitrary: st)
     (auto simp: delete_old_def keys_caches_delete intro: filter_cong)

lemma current_not_offline: "CACHE_NAME \<noteq> OFFLINE_CACHE"
  by (simp add: CACHE_NAME_def OFFLINE_CACHE_def)

lemma entry_store_all_other:
  "m \<noteq> n \<Longrightarrow> entry (store_all e n us st) m k = entry st m k"
  by (induction us arbitrary: st)
     (auto simp: entry_store_entry split: fetch_result.splits sum.splits)

lemma entry_addAll_other:
  "m \<noteq> n \<Longrightarrow> entry (snd (addAll e n us st)) m k = entry st m k"
  by (simp add: addAll_def entry_store_all_other)

lemma addAll_rejects:
  assumes "u \<in> set us" and "fetch_failed (fetch e (resolve e u))"
  shows "addAll e n us st = (Rejected (TypeError ''Request failed''), st)"
proof -
  from assms have "list_ex (\<lambda>u. fetch_failed (fetch e (resolve e u))) us"
    by (auto simp: list_ex_iff)
  then show ?thesis by (simp add: addAll_def)
qed

section \<open>Facts about the race against the timeout\<close>

lemma race_in_time: "t < NETWORK_TIMEOUT \<Longrightarrow> race (Settles t r) = r"
  by (simp add: race_def)

lemma race_late:
  "NETWORK_TIMEOUT \<le> t \<Longrightarrow> race (Settles t r) = Inl (Error ''Network timeout'')"
  by (simp add: race_def)

lemma race_never: "race NeverSettles = Inl (Error ''Network timeout'')"
  by (simp add: race_def)

lemma race_rejected:
  "race (Settles t (Inl err)) =
     Inl (if t < NETWORK_TIMEOUT then err else Error ''Network timeout'')"
  by (simp add: race_def)

section \<open>Facts about the fetch listener and about values\<close>

text \<open>The five strategies are all the listener ever answers with.\<close>

lemma fetch_listener_strategies:
  "fetch_listener e st request \<in>
     {PassThrough,
      RespondWith (handleApiRequest e st request),
      RespondWith (handleImageRequest sw_scope e st request),
      RespondWith (handleAssetRequest e st request),
      RespondWith (handleHtmlRequest e st request),
      RespondWith (networkFirstWithCache e st request)}"
  by (simp add: fetch_listener_def)

lemma images_not_api: "startsWith p ''/assets/images/'' \<Longrightarrow> \<not> startsWith p ''/api/''"
  by (auto simp: startsWith_def prefix_def)

lemma fetch_listener_image:
  assumes "req_method request = ''GET''"
    and "\<not> startsWith (url request) ''chrome-extension://''"
    and "\<not> str_includes (url request) ''sockjs-node''"
    and "startsWith (pathname e (url request)) ''/assets/images/''"
  shows "fetch_listener e st request = RespondWith (handleImageRequest sw_scope e st request)"
  using assms images_not_api [of "pathname e (url request)"]
  by (simp add: fetch_listener_def)

lemma assets_not_api: "startsWith p ''/assets/'' \<Longrightarrow> \<not> startsWith p ''/api/''"
  by (auto simp: startsWith_def prefix_def)

lemma fetch_listener_api:
  assumes "req_method request = ''GET''"
    and "\<not> startsWith (url request) ''chrome-extension://''"
    and "\<not> str_includes (url request) ''sockjs-node''"
    and "startsWith (pathname e (url request)) ''/api/''"
  shows "fetch_listener e st request = RespondWith (handleApiRequest e st request)"
  using assms by (simp add: fetch_listener_def)

lemma fetch_listener_asset:
  assumes "req_method request = ''GET''"
    and "\<not> startsWith (url request) ''chrome-extension://''"
    and "\<not> str_includes (url request) ''sockjs-node''"
    and "startsWith (pathname e (url request)) ''/assets/''"
    and "\<not> startsWith (pathname e (url request)) ''/assets/images/''"
  shows "fetch_listener e st request = RespondWith (handleAssetRequest e st request)"
  using assms assets_not_api [of "pathname e (url request)"]
  by (simp add: fetch_listener_def)

text \<open>No declaration of sw.js and no global it uses binds the name \<^verbatim>\<open>event\<close>.\<close>

lemma event_unbound: "''event'' \<notin> set sw_scope"
  by (simp add: sw_scope_def sw_declarations_def worker_globals_def)

text \<open>
  Were \<^verbatim>\<open>event\<close> bound where \<open>handleImageRequest\<close> runs, a cached image would be
  returned and refreshed in the background.
\<close>

lemma handleImageRequest_event_bound:
  assumes "''event'' \<in> set scope"
    and "entry st CACHE_NAME (url request) = Some c"
  shows "outcome (handleImageRequest scope e st request) = Fulfilled (Some c) \<and>
         fetched (handleImageRequest scope e st request) = [url request]"
  using assms
  by (simp add: handleImageRequest_def Let_def cache_match_def entry_caches_open)

text \<open>The promise handed to \<^verbatim>\<open>waitUntil\<close> by the install listener is never rejected.\<close>

lemma install_never_rejects: "waitUntil (install_listener e st) \<noteq> Rejected err"
  by (simp add: install_listener_def Let_def split: promise.splits)

lemma field_object:
  "field (JObj fs) k = (case map_of fs k of Some v \<Rightarrow> v | None \<Rightarrow> JUndefined)"
  by (simp add: field_def)

lemma or_default_undefined: "or_default JUndefined d = d"
  by (simp add: or_default_def)

section \<open>The claims\<close>

text \<open>
  C1. The claim: an image request with an entry in the current cache is answered with
  that entry, and a background fetch is started. The code does otherwise: in the scope
  of sw.js the name \<^verbatim>\<open>event\<close> is unbound, so for every cached image the promise of
  \<open>handleImageRequest\<close> is rejected with a ReferenceError and no fetch is started.
\<close>

theorem image_cached_entry_rejected:
  assumes "entry st CACHE_NAME (url request) = Some c"
  shows "outcome (handleImageRequest sw_scope e st request) =
           Rejected (ReferenceError ''event is not defined'') \<and>
         fetched (handleImageRequest sw_scope e st request) = []"
  using assms event_unbound
  by (simp add: handleImageRequest_def Let_def cache_match_def entry_caches_open)

text \<open>
  A cached logo: the listener hands the request to the image strategy, whose promise is
  rejected.
\<close>

theorem image_cached_entry_rejected_witness:
  "fetch_listener (platform (always (Settles 40 (Inr fresh))))
     [(CACHE_NAME, [(''https://app.example/assets/images/logo.svg'', stale)])]
     (get_request ''https://app.example/assets/images/logo.svg'') =
   RespondWith (handleImageRequest sw_scope (platform (always (Settles 40 (Inr fresh))))
     [(CACHE_NAME, [(''https://app.example/assets/images/logo.svg'', stale)])]
     (get_request ''https://app.example/assets/images/logo.svg'')) \<and>
   outcome (handleImageRequest sw_scope (platform (always (Settles 40 (Inr fresh))))
     [(CACHE_NAME, [(''https://app.example/assets/images/logo.svg'', stale)])]
     (get_request ''https://app.example/assets/images/logo.svg'')) =
   Rejected (ReferenceError ''event is not defined'') \<and>
   fetched (handleImageRequest sw_scope (platform (always (Settles 40 (Inr fresh))))
     [(CACHE_NAME, [(''https://app.example/assets/images/logo.svg'', stale)])]
     (get_request ''https://app.example/assets/images/logo.svg'')) = []"
  using image_cached_entry_rejected
          [of "[(CACHE_NAME, [(''https://app.example/assets/images/logo.svg'', stale)])]"
              "get_request ''https://app.example/assets/images/logo.svg''" stale
              "platform (always (Settles 40 (Inr fresh)))"]
  by (simp add: fetch_listener_def entry_def platform_def get_request_def
                startsWith_def str_includes_def sublist_Cons_right)

text \<open>
  C2, as stated, fails: a status from 200 to 299 is not enough. The network answers
  within the timeout with status 206, or with status 200 and a \<^verbatim>\<open>Vary: *\<close> header;
  the cache is empty. The awaited \<^verbatim>\<open>cache.put\<close> is rejected inside the
  \<^verbatim>\<open>try\<close> block, so the \<^verbatim>\<open>catch\<close> block answers: the caller gets the 503
  response, whose body is not the network's, and the cache has no entry for the request.
\<close>

theorem api_refused_response_not_returned:
  "fetch (platform (always (Settles 120 (Inr partial_content))))
         (url (get_request ''https://app.example/api/widgets'')) =
     Settles 120 (Inr partial_content) \<and>
   120 < NETWORK_TIMEOUT \<and> ok partial_content \<and>
   outcome (handleApiRequest (platform (always (Settles 120 (Inr partial_content)))) []
              (get_request ''https://app.example/api/widgets'')) =
     Fulfilled (Some (offline_api_response ''2024-01-01T00:00:00.000Z'')) \<and>
   body (offline_api_response ''2024-01-01T00:00:00.000Z'') \<noteq> body partial_content \<and>
   entry (store (handleApiRequest (platform (always (Settles 120 (Inr partial_content)))) []
                  (get_request ''https://app.example/api/widgets'')))
         CACHE_NAME ''https://app.example/api/widgets'' = None \<and>
   ok varying \<and>
   outcome (handleApiRequest (platform (always (Settles 120 (Inr varying)))) []
              (get_request ''https://app.example/api/widgets'')) =
     Fulfilled (Some (offline_api_response ''2024-01-01T00:00:00.000Z'')) \<and>
   body (offline_api_response ''2024-01-01T00:00:00.000Z'') \<noteq> body varying \<and>
   entry (store (handleApiRequest (platform (always (Settles 120 (Inr varying)))) []
                  (get_request ''https://app.example/api/widgets'')))
         CACHE_NAME ''https://app.example/api/widgets'' = None"
  by (simp add: handleApiRequest_def api_fallback_def Let_def race_def cache_match_def
                entry_def caches_open_def keys_def platform_def always_def get_request_def
                NETWORK_TIMEOUT_def partial_content_def varying_def ok_def cache_put_def
                put_refused_def vary_star_def lower_def trim_def is_space_def
                offline_api_response_def CACHE_NAME_def APP_VERSION_def replace_dots_def)

text \<open>
  C2, amended. For a request handled by the API strategy: when the network answers
  before the timeout of 5000 ms with a status from 200 to 299 other than 206 and without
  a \<^verbatim>\<open>Vary\<close> header that lists \<^verbatim>\<open>*\<close>, \<open>handleApiRequest\<close> returns that very
  response (so its body is the network's body), and afterwards the entry of the current
  cache for the request's URL is that response.
\<close>

theorem api_accepted_response_returned_and_cached:
  assumes "fetch e (url request) = Settles t (Inr r)"
    and "t < NETWORK_TIMEOUT"
    and "ok r"
    and "status r \<noteq> 206"
    and "\<not> vary_star r"
  shows "outcome (handleApiRequest e st request) = Fulfilled (Some r) \<and>
         entry (store (handleApiRequest e st request)) CACHE_NAME (url request) = Some r"
  using assms
  by (simp add: handleApiRequest_def Let_def race_in_time cache_put_def put_refused_def
                entry_store_entry keys_caches_open)

text \<open>
  The scenario of the specification: empty cache store, a request for
  \<^verbatim>\<open>/api/widgets\<close>, the network answers 200 after 120 ms.
\<close>

theorem api_accepted_response_returned_and_cached_witness:
  "ok widgets \<and> status widgets \<noteq> 206 \<and> \<not> vary_star widgets \<and>
   outcome (handleApiRequest (platform (always (Settles 120 (Inr widgets)))) []
              (get_request ''https://app.example/api/widgets''))
     = Fulfilled (Some widgets) \<and>
   entry (store (handleApiRequest (platform (always (Settles 120 (Inr widgets)))) []
                  (get_request ''https://app.example/api/widgets'')))
         CACHE_NAME ''https://app.example/api/widgets''
     = Some widgets"
  using api_accepted_response_returned_and_cached
          [of "platform (always (Settles 120 (Inr widgets)))"
              "get_request ''https://app.example/api/widgets''" 120 widgets "[]"]
  by (simp add: platform_def always_def get_request_def widgets_def ok_def
                NETWORK_TIMEOUT_def vary_star_def lower_def)

text \<open>
  C3. The claim: when one fetch of the manifest fails, the installation fails. The code
  does otherwise: the rejection of \<^verbatim>\<open>Promise.all\<close> is caught by a handler that only
  writes ``Installation failed'' to the console, so the promise handed to
  \<^verbatim>\<open>event.waitUntil\<close> is fulfilled and the installation counts as successful, with
  nothing of the manifest stored in the current cache.
\<close>

theorem install_fulfilled_despite_manifest_failure:
  assumes "u \<in> set PRECACHE_ASSETS"
    and "fetch_failed (fetch e (resolve e u))"
  shows "waitUntil (install_listener e st) = Fulfilled () \<and>
         last (console (install_listener e st)) = ''[Service Worker] Installation failed:'' \<and>
         entry (installed (install_listener e st)) CACHE_NAME k = entry st CACHE_NAME k"
proof -
  let ?st1 = "caches_open CACHE_NAME st"
  have core: "addAll e CACHE_NAME PRECACHE_ASSETS ?st1 =
                (Rejected (TypeError ''Request failed''), ?st1)"
    using assms by (rule addAll_rejects)
  have "entry (installed (install_listener e st)) CACHE_NAME k = entry st CACHE_NAME k"
    using current_not_offline
    by (simp add: install_listener_def Let_def core entry_addAll_other entry_caches_open)
  moreover have "waitUntil (install_listener e st) = Fulfilled ()"
    by (simp add: install_listener_def Let_def core)
  moreover have "last (console (install_listener e st)) =
      ''[Service Worker] Installation failed:''"
    by (simp add: install_listener_def Let_def core)
  ultimately show ?thesis by simp
qed

text \<open>The favicon answers 404, every other URL 200, and the cache store is empty.\<close>

theorem install_fulfilled_despite_manifest_failure_witness:
  "fetch_failed (fetch (platform favicon_missing)
                   (resolve (platform favicon_missing) ''/favicon.ico'')) \<and>
   waitUntil (install_listener (platform favicon_missing) []) = Fulfilled () \<and>
   last (console (install_listener (platform favicon_missing) [])) =
     ''[Service Worker] Installation failed:'' \<and>
   entry (installed (install_listener (platform favicon_missing) [])) CACHE_NAME
     ''https://app.example/index.html'' = None"
  using install_fulfilled_despite_manifest_failure
          [of "''/favicon.ico''" "platform favicon_missing" "[]"
              "''https://app.example/index.html''"]
  by (simp add: PRECACHE_ASSETS_def platform_def favicon_missing_def fetch_failed_def
                not_found_def ok_def entry_def)

text \<open>
  C4. Whatever caches exist when the activate listener runs, the caches that exist
  after it are those among \<open>CACHE_NAME\<close> and \<open>OFFLINE_CACHE\<close> that existed before:
  no other name remains.
\<close>

theorem activate_keeps_only_current_and_offline:
  "set (keys (activated (activate_listener st clients))) =
     set (keys st) \<inter> {CACHE_NAME, OFFLINE_CACHE}"
  by (auto simp: activate_listener_def keys_fold_delete_old)

theorem activate_keeps_only_current_and_offline_witness:
  "keys (activated (activate_listener
           [(''pwa-cache-v1-0-0'', [(''https://app.example/'', stale)]),
            (''offline-cache-v1'', []),
            (''pwa-cache-v2-0-0'', [])] [])) =
     [''offline-cache-v1'', ''pwa-cache-v2-0-0'']"
  using activate_keeps_only_current_and_offline
          [of "[(''pwa-cache-v1-0-0'', [(''https://app.example/'', stale)]),
                (''offline-cache-v1'', []),
                (''pwa-cache-v2-0-0'', [])]" "[]"]
  by (simp add: activate_listener_def keys_def delete_old_def caches_delete_def
                CACHE_NAME_def OFFLINE_CACHE_def APP_VERSION_def replace_dots_def)

text \<open>
  C5, as stated, fails: a response that arrives after the timeout has won is not written
  to the cache. Empty cache store, the network answers 200 after 6000 ms: the current
  cache has no entry for the request afterwards.
\<close>

theorem api_late_success_not_cached:
  "fetch (platform (always (Settles 6000 (Inr widgets))))
         (url (get_request ''https://app.example/api/widgets'')) =
     Settles 6000 (Inr widgets) \<and>
   NETWORK_TIMEOUT \<le> 6000 \<and> ok widgets \<and>
   entry (store (handleApiRequest (platform (always (Settles 6000 (Inr widgets)))) []
                  (get_request ''https://app.example/api/widgets'')))
         CACHE_NAME ''https://app.example/api/widgets'' = None"
  by (simp add: handleApiRequest_def api_fallback_def Let_def race_def cache_match_def
                entry_def caches_open_def keys_def platform_def always_def get_request_def
                NETWORK_TIMEOUT_def widgets_def ok_def CACHE_NAME_def APP_VERSION_def
                replace_dots_def)

text \<open>
  C5, amended. In the API strategy, when the timeout of 5000 ms wins the race, the result
  of the fetch is dropped, whatever its status: every cache entry is what it was before
  the request, and the caller gets the cached entry for the request if there is one, the
  503 response otherwise.
\<close>

theorem api_timeout_drops_late_result:
  assumes "fetch e (url request) = Settles t x"
    and "NETWORK_TIMEOUT \<le> t"
  shows "entry (store (handleApiRequest e st request)) n k = entry st n k \<and>
         outcome (handleApiRequest e st request) =
           Fulfilled (Some (case entry st CACHE_NAME (url request) of
                              Some cachedResponse \<Rightarrow> cachedResponse
                            | None \<Rightarrow> offline_api_response (toISOString e)))"
  using assms
  by (simp add: handleApiRequest_def api_fallback_def Let_def race_late cache_match_def
                entry_caches_open
           split: option.splits)

theorem api_timeout_drops_late_result_witness:
  "entry (store (handleApiRequest (platform (always (Settles 6000 (Inr widgets))))
                  [(CACHE_NAME, [(''https://app.example/api/widgets'', stale)])]
                  (get_request ''https://app.example/api/widgets'')))
         CACHE_NAME ''https://app.example/api/widgets'' = Some stale \<and>
   outcome (handleApiRequest (platform (always (Settles 6000 (Inr widgets))))
              [(CACHE_NAME, [(''https://app.example/api/widgets'', stale)])]
              (get_request ''https://app.example/api/widgets'')) = Fulfilled (Some stale)"
  using api_timeout_drops_late_result
          [of "platform (always (Settles 6000 (Inr widgets)))"
              "get_request ''https://app.example/api/widgets''" 6000 "Inr widgets"
              "[(CACHE_NAME, [(''https://app.example/api/widgets'', stale)])]"
              CACHE_NAME "''https://app.example/api/widgets''"]
  by (simp add: platform_def always_def get_request_def NETWORK_TIMEOUT_def entry_def)

text \<open>
  C6. For a request handled by the API strategy: when the fetch is rejected, or settles
  only at or after the timeout of 5000 ms, or never settles, and the current cache has no
  entry for the request, \<open>handleApiRequest\<close> returns a response of status 503 whose
  body is the JSON text of an object with the field \<^verbatim>\<open>error\<close> equal to
  ``You are offline'' and the field \<^verbatim>\<open>timestamp\<close> equal to the current time.
\<close>

theorem api_offline_response:
  assumes "(\<exists>t err. fetch e (url request) = Settles t (Inl err)) \<or>
           (\<exists>t x. fetch e (url request) = Settles t x \<and> NETWORK_TIMEOUT \<le> t) \<or>
           fetch e (url request) = NeverSettles"
    and "entry st CACHE_NAME (url request) = None"
  shows "outcome (handleApiRequest e st request) =
           Fulfilled (Some \<lparr>status = 503,
                            headers = [(''Content-Type'', ''application/json'')],
                            body = Json (JObj [(''error'', JStr ''You are offline''),
                                               (''timestamp'', JStr (toISOString e)),
                                               (''cached'', JBool True)])\<rparr>)"
proof -
  from assms(1) have "\<exists>err. race (fetch e (url request)) = Inl err"
    by (auto simp: race_rejected race_late race_never)
  then obtain err where "race (fetch e (url request)) = Inl err" ..
  with assms(2) show ?thesis
    by (simp add: handleApiRequest_def api_fallback_def Let_def cache_match_def
                  entry_caches_open offline_api_response_def)
qed

text \<open>The scenario of the specification: the network never answers, the cache is empty.\<close>

theorem api_offline_response_witness:
  "outcome (handleApiRequest (platform (always NeverSettles)) []
              (get_request ''https://app.example/api/widgets'')) =
     Fulfilled (Some \<lparr>status = 503,
                      headers = [(''Content-Type'', ''application/json'')],
                      body = Json (JObj [(''error'', JStr ''You are offline''),
                                         (''timestamp'', JStr ''2024-01-01T00:00:00.000Z''),
                                         (''cached'', JBool True)])\<rparr>)"
  using api_offline_response
          [of "platform (always NeverSettles)"
              "get_request ''https://app.example/api/widgets''" "[]"]
  by (simp add: platform_def always_def get_request_def entry_def)

text \<open>
  C7, as stated, fails: a fetch that succeeds with a status from 200 to 299 does not
  always update the cache. A stylesheet with a stale entry, the network answers 206, or
  200 with a \<^verbatim>\<open>Vary: *\<close> header: the stale entry is returned, the
  \<^verbatim>\<open>cache.put\<close> that nothing awaits is rejected, and the entry is still the stale
  one afterwards.
\<close>

theorem asset_refused_response_not_cached:
  "fetch (platform (always (Settles 40 (Inr partial_content))))
     (url (get_request ''https://app.example/assets/css/styles.css'')) =
     Settles 40 (Inr partial_content) \<and>
   ok partial_content \<and>
   outcome (handleAssetRequest (platform (always (Settles 40 (Inr partial_content))))
     [(CACHE_NAME, [(''https://app.example/assets/css/styles.css'', stale)])]
     (get_request ''https://app.example/assets/css/styles.css'')) = Fulfilled (Some stale) \<and>
   entry (store (handleAssetRequest (platform (always (Settles 40 (Inr partial_content))))
     [(CACHE_NAME, [(''https://app.example/assets/css/styles.css'', stale)])]
     (get_request ''https://app.example/assets/css/styles.css'')))
     CACHE_NAME ''https://app.example/assets/css/styles.css'' = Some stale \<and>
   stale \<noteq> partial_content \<and>
   ok varying \<and>
   entry (store (handleAssetRequest (platform (always (Settles 40 (Inr varying))))
     [(CACHE_NAME, [(''https://app.example/assets/css/styles.css'', stale)])]
     (get_request ''https://app.example/assets/css/styles.css'')))
     CACHE_NAME ''https://app.example/assets/css/styles.css'' = Some stale \<and>
   stale \<noteq> varying"
  by (simp add: handleAssetRequest_def Let_def cache_match_def entry_def caches_open_def
                keys_def platform_def always_def get_request_def partial_content_def
                varying_def stale_def ok_def put_if_ok_def cache_put_def put_refused_def
                vary_star_def lower_def trim_def is_space_def)

text \<open>
  C7, amended. For a request handled by the asset strategy. With an entry in the current
  cache: \<open>handleAssetRequest\<close> returns that entry, whatever the network does, and when
  the fetch brings a response of status 200 to 299 other than 206 and without a
  \<^verbatim>\<open>Vary\<close> header that lists \<^verbatim>\<open>*\<close>, the entry is that response afterwards.
  Without an entry: the result of the fetch is the result of the strategy, a response is
  returned (and cached under the same condition), a failed fetch rejects the promise the
  caller holds, and a fetch that never settles leaves it pending.
\<close>

theorem asset_stale_while_revalidate:
  "(entry st CACHE_NAME (url request) = Some c \<longrightarrow>
      outcome (handleAssetRequest e st request) = Fulfilled (Some c) \<and>
      (fetch e (url request) = Settles t (Inr r) \<and> ok r \<and> status r \<noteq> 206 \<and>
       \<not> vary_star r \<longrightarrow>
         entry (store (handleAssetRequest e st request)) CACHE_NAME (url request) = Some r)) \<and>
   (entry st CACHE_NAME (url request) = None \<longrightarrow>
      (fetch e (url request) = Settles t (Inr r) \<longrightarrow>
         outcome (handleAssetRequest e st request) = Fulfilled (Some r) \<and>
         (ok r \<and> status r \<noteq> 206 \<and> \<not> vary_star r \<longrightarrow>
            entry (store (handleAssetRequest e st request)) CACHE_NAME (url request) =
              Some r)) \<and>
      (fetch e (url request) = Settles t (Inl err) \<longrightarrow>
         outcome (handleAssetRequest e st request) =
           Rejected (Error ''Network failed and no cache available'')) \<and>
      (fetch e (url request) = NeverSettles \<longrightarrow>
         outcome (handleAssetRequest e st request) = Pending))"
  by (simp add: handleAssetRequest_def Let_def cache_match_def entry_caches_open
                put_if_ok_def cache_put_def put_refused_def entry_store_entry
                keys_caches_open)

text \<open>
  A stylesheet with a stale entry and a fresh answer from the network; the same
  stylesheet with an empty cache store and a network that fails.
\<close>

theorem asset_stale_while_revalidate_witness:
  "ok fresh \<and> status fresh \<noteq> 206 \<and> \<not> vary_star fresh \<and>
   outcome (handleAssetRequest (platform (always (Settles 40 (Inr fresh))))
              [(CACHE_NAME, [(''https://app.example/assets/css/styles.css'', stale)])]
              (get_request ''https://app.example/assets/css/styles.css'')) =
     Fulfilled (Some stale) \<and>
   entry (store (handleAssetRequest (platform (always (Settles 40 (Inr fresh))))
                  [(CACHE_NAME, [(''https://app.example/assets/css/styles.css'', stale)])]
                  (get_request ''https://app.example/assets/css/styles.css'')))
         CACHE_NAME ''https://app.example/assets/css/styles.css'' = Some fresh \<and>
   outcome (handleAssetRequest
              (platform (always (Settles 40 (Inl (TypeError ''Failed to fetch''))))) []
              (get_request ''https://app.example/assets/css/styles.css'')) =
     Rejected (Error ''Network failed and no cache available'')"
  using asset_stale_while_revalidate
          [where st = "[(CACHE_NAME, [(''https://app.example/assets/css/styles.css'', stale)])]"
             and request = "get_request ''https://app.example/assets/css/styles.css''"
             and c = stale and e = "platform (always (Settles 40 (Inr fresh)))"
             and t = 40 and r = fresh]
        asset_stale_while_revalidate
          [where st = "[]"
             and request = "get_request ''https://app.example/assets/css/styles.css''"
             and e = "platform (always (Settles 40 (Inl (TypeError ''Failed to fetch''))))"
             and t = 40 and err = "TypeError ''Failed to fetch''"]
  by (simp add: platform_def always_def get_request_def entry_def fresh_def ok_def
                vary_star_def)

text \<open>
  C8, as stated, fails: the asset strategy does not return an unsuccessful network
  response when it has a cached entry. A stylesheet with a stale entry, the network
  answers 404: the listener answers with the asset strategy, which returns the stale
  entry, not the 404 response.
\<close>

theorem asset_cached_entry_served_instead_of_404:
  "fetch_listener (platform (always (Settles 40 (Inr not_found))))
     [(CACHE_NAME, [(''https://app.example/assets/css/styles.css'', stale)])]
     (get_request ''https://app.example/assets/css/styles.css'') =
   RespondWith (handleAssetRequest (platform (always (Settles 40 (Inr not_found))))
     [(CACHE_NAME, [(''https://app.example/assets/css/styles.css'', stale)])]
     (get_request ''https://app.example/assets/css/styles.css'')) \<and>
   fetch (platform (always (Settles 40 (Inr not_found))))
     (url (get_request ''https://app.example/assets/css/styles.css'')) =
     Settles 40 (Inr not_found) \<and>
   \<not> ok not_found \<and>
   outcome (handleAssetRequest (platform (always (Settles 40 (Inr not_found))))
     [(CACHE_NAME, [(''https://app.example/assets/css/styles.css'', stale)])]
     (get_request ''https://app.example/assets/css/styles.css'')) = Fulfilled (Some stale) \<and>
   stale \<noteq> not_found"
  by (simp add: fetch_listener_def handleAssetRequest_def Let_def cache_match_def entry_def
                caches_open_def keys_def platform_def always_def get_request_def
                startsWith_def str_includes_def sublist_Cons_right
                not_found_def stale_def ok_def put_if_ok_def)

text \<open>
  C8, amended. When the network answers a request with a status outside 200 to 299, no
  strategy writes it to the cache: every cache entry is what it was before. The response
  is returned to the caller by the API strategy when it arrived before the timeout, by
  the image and the asset strategy when the current cache has no entry for the request,
  and by the HTML and the default strategy always; the asset strategy returns the cached
  entry when there is one. So no strategy answers an unsuccessful status with its
  fallback.
\<close>

theorem unsuccessful_status_not_cached:
  assumes "fetch e (url request) = Settles t (Inr r)"
    and "\<not> ok r"
  shows "entry (store (handleApiRequest e st request)) n k = entry st n k \<and>
         entry (store (handleImageRequest scope e st request)) n k = entry st n k \<and>
         entry (store (handleAssetRequest e st request)) n k = entry st n k \<and>
         store (handleHtmlRequest e st request) = st \<and>
         store (networkFirstWithCache e st request) = st \<and>
         (t < NETWORK_TIMEOUT \<longrightarrow>
            outcome (handleApiRequest e st request) = Fulfilled (Some r)) \<and>
         (entry st CACHE_NAME (url request) = None \<longrightarrow>
            outcome (handleImageRequest scope e st request) = Fulfilled (Some r)) \<and>
         (entry st CACHE_NAME (url request) = None \<longrightarrow>
            outcome (handleAssetRequest e st request) = Fulfilled (Some r)) \<and>
         (entry st CACHE_NAME (url request) = Some c \<longrightarrow>
            outcome (handleAssetRequest e st request) = Fulfilled (Some c)) \<and>
         outcome (handleHtmlRequest e st request) = Fulfilled (Some r) \<and>
         outcome (networkFirstWithCache e st request) = Fulfilled (Some r)"
proof -
  have api: "entry (store (handleApiRequest e st request)) n k = entry st n k"
    using assms
    by (simp add: handleApiRequest_def api_fallback_def Let_def race_def cache_match_def
                  entry_caches_open
             split: option.splits)
  have image: "entry (store (handleImageRequest scope e st request)) n k = entry st n k"
    using assms
    by (simp add: handleImageRequest_def Let_def put_if_ok_not_ok entry_caches_open
             split: option.splits)
  have asset: "entry (store (handleAssetRequest e st request)) n k = entry st n k"
    using assms
    by (simp add: handleAssetRequest_def Let_def put_if_ok_not_ok entry_caches_open
             split: option.splits)
  have html: "store (handleHtmlRequest e st request) = st"
    "outcome (handleHtmlRequest e st request) = Fulfilled (Some r)"
    using assms by (simp_all add: handleHtmlRequest_def)
  have dflt: "store (networkFirstWithCache e st request) = st"
    "outcome (networkFirstWithCache e st request) = Fulfilled (Some r)"
    using assms by (simp_all add: networkFirstWithCache_def)
  have api_out: "t < NETWORK_TIMEOUT \<longrightarrow>
      outcome (handleApiRequest e st request) = Fulfilled (Some r)"
    using assms by (simp add: handleApiRequest_def Let_def race_in_time)
  have image_out: "entry st CACHE_NAME (url request) = None \<longrightarrow>
      outcome (handleImageRequest scope e st request) = Fulfilled (Some r)"
    using assms
    by (simp add: handleImageRequest_def Let_def cache_match_def entry_caches_open)
  have asset_out: "entry st CACHE_NAME (url request) = None \<longrightarrow>
      outcome (handleAssetRequest e st request) = Fulfilled (Some r)"
    "entry st CACHE_NAME (url request) = Some c \<longrightarrow>
      outcome (handleAssetRequest e st request) = Fulfilled (Some c)"
    using assms
    by (simp_all add: handleAssetRequest_def Let_def cache_match_def entry_caches_open)
  from api image asset html dflt api_out image_out asset_out show ?thesis
    by blast
qed

text \<open>
  The network answers 404 after 40 ms and the cache store is empty: the API, the image
  and the default strategy return the 404 response, and the current cache has no entry
  for the request afterwards.
\<close>

theorem unsuccessful_status_not_cached_witness:
  "\<not> ok not_found \<and>
   outcome (handleApiRequest (platform (always (Settles 40 (Inr not_found)))) []
              (get_request ''https://app.example/api/widgets'')) =
     Fulfilled (Some not_found) \<and>
   entry (store (handleApiRequest (platform (always (Settles 40 (Inr not_found)))) []
                  (get_request ''https://app.example/api/widgets'')))
         CACHE_NAME ''https://app.example/api/widgets'' = None \<and>
   outcome (handleImageRequest sw_scope (platform (always (Settles 40 (Inr not_found)))) []
              (get_request ''https://app.example/api/widgets'')) =
     Fulfilled (Some not_found) \<and>
   outcome (networkFirstWithCache (platform (always (Settles 40 (Inr not_found)))) []
              (get_request ''https://app.example/api/widgets'')) =
     Fulfilled (Some not_found) \<and>
   store (networkFirstWithCache (platform (always (Settles 40 (Inr not_found)))) []
              (get_request ''https://app.example/api/widgets'')) = []"
  using unsuccessful_status_not_cached
          [where e = "platform (always (Settles 40 (Inr not_found)))"
             and request = "get_request ''https://app.example/api/widgets''"
             and t = 40 and r = not_found and st = "[]" and scope = sw_scope
             and n = CACHE_NAME and k = "''https://app.example/api/widgets''"]
  by (simp add: platform_def always_def get_request_def entry_def not_found_def ok_def
                NETWORK_TIMEOUT_def)

text \<open>
  C9. On a message whose type is \<^verbatim>\<open>CLEAR_CACHE\<close>, every cache is deleted, the
  offline cache too, whatever the store holds. When the event carries a port, the
  listener's actions are the deletions, one per cache, followed by exactly one message
  posted on the first port, \<^verbatim>\<open>{success: true}\<close>, and nothing is raised.
\<close>

theorem clear_cache_deletes_all_and_replies_once:
  assumes "get_prop data ''type'' = Inr (JStr ''CLEAR_CACHE'')"
  shows "caches (message_listener e st data ports) = [] \<and>
         thrown (message_listener e st data ports) = None \<and>
         (ports = port # rest \<longrightarrow>
            actions (message_listener e st data ports) =
              map CacheDelete (keys st) @
              [PostMessage port (JObj [(''success'', JBool True)])] \<and>
            unhandled (message_listener e st data ports) = None)"
  using assms
  by (simp add: message_listener_def clearCache_def post_reply_def fold_delete_all
           split: list.splits)

text \<open>The scenario of the specification: two caches exist, the message comes with port 7.\<close>

theorem clear_cache_deletes_all_and_replies_once_witness:
  "message_listener (platform (always NeverSettles))
     [(''pwa-cache-v2-0-0'', [(''https://app.example/'', stale)]), (''offline-cache-v1'', [])]
     (JObj [(''type'', JStr ''CLEAR_CACHE'')]) [7] =
   \<lparr>thrown = None, unhandled = None,
    actions = [CacheDelete ''pwa-cache-v2-0-0'', CacheDelete ''offline-cache-v1'',
               PostMessage 7 (JObj [(''success'', JBool True)])],
    caches = []\<rparr>"
  using clear_cache_deletes_all_and_replies_once
          [of "JObj [(''type'', JStr ''CLEAR_CACHE'')]" "platform (always NeverSettles)"
              "[(''pwa-cache-v2-0-0'', [(''https://app.example/'', stale)]),
                (''offline-cache-v1'', [])]"
              "[7]" 7 "[]"]
  by (simp add: message_listener_def clearCache_def post_reply_def keys_def)

text \<open>
  C10, as stated, fails: an exception leaves the push listener when the payload is not
  JSON or is \<^verbatim>\<open>null\<close>, and the message listener when the data of the message is
  \<^verbatim>\<open>null\<close>; and a missing \<^verbatim>\<open>image\<close> is not defaulted, it stays
  \<^verbatim>\<open>undefined\<close>.
\<close>

theorem malformed_push_payload_raises:
  "raised (push_listener (platform (always NeverSettles)) (Some NotJson)) =
     Some (SyntaxError ''Unexpected token in JSON'') \<and>
   raised (push_listener (platform (always NeverSettles)) (Some (Payload JNull))) =
     Some (TypeError ''Cannot read properties of null: body'') \<and>
   thrown (message_listener (platform (always NeverSettles)) [] JNull []) =
     Some (TypeError ''Cannot read properties of null: type'') \<and>
   map_of (push_options (platform (always NeverSettles)) (JObj [])) ''image'' =
     Some JUndefined"
  by (simp add: push_listener_def message_listener_def push_options_def field_def)

text \<open>
  C10, amended. A push event without data does nothing. For every push payload that
  parses to a value other than \<^verbatim>\<open>null\<close>, the listener raises nothing and calls
  \<^verbatim>\<open>showNotification\<close> exactly once. Every field the payload lacks gets its
  default: title, body, icon, data, actions, tag, requireInteraction, silent and vibrate
  their fixed values, timestamp the current time, and image stays undefined; a payload
  that is not an object (a boolean, a number, a string, an array) lacks them all. A
  message whose data is neither \<^verbatim>\<open>null\<close> nor \<^verbatim>\<open>undefined\<close> and whose type is
  none of the four known ones has no effect: nothing is raised, nothing is done, and the
  cache store is unchanged.
\<close>

theorem push_and_message_defaults:
  "push_listener e None = \<lparr>raised = None, showNotification = []\<rparr> \<and>
   (d \<noteq> JNull \<and> d \<noteq> JUndefined \<longrightarrow>
      push_listener e (Some (Payload d)) =
        \<lparr>raised = None,
         showNotification =
           [\<lparr>title = or_default (field d ''title'') (JStr ''My PWA''),
             options = push_options e d\<rparr>]\<rparr>) \<and>
   (d = JBool b \<or> d = JNum i \<or> d = JStr s \<or> d = JArr xs \<longrightarrow> field d k = JUndefined) \<and>
   (map_of fs k = None \<longrightarrow> field (JObj fs) k = JUndefined) \<and>
   (field d ''title'' = JUndefined \<longrightarrow>
      or_default (field d ''title'') (JStr ''My PWA'') = JStr ''My PWA'') \<and>
   (field d ''body'' = JUndefined \<longrightarrow>
      map_of (push_options e d) ''body'' = Some (JStr ''New notification'')) \<and>
   (field d ''icon'' = JUndefined \<longrightarrow>
      map_of (push_options e d) ''icon'' = Some (JStr ''/assets/images/icon-192.png'')) \<and>
   (field d ''data'' = JUndefined \<longrightarrow>
      map_of (push_options e d) ''data'' = Some (JObj [])) \<and>
   (field d ''actions'' = JUndefined \<longrightarrow>
      map_of (push_options e d) ''actions'' = Some (JArr [])) \<and>
   (field d ''tag'' = JUndefined \<longrightarrow>
      map_of (push_options e d) ''tag'' = Some (JStr ''default'')) \<and>
   (field d ''requireInteraction'' = JUndefined \<longrightarrow>
      map_of (push_options e d) ''requireInteraction'' = Some (JBool False)) \<and>
   (field d ''silent'' = JUndefined \<longrightarrow>
      map_of (push_options e d) ''silent'' = Some (JBool False)) \<and>
   (field d ''vibrate'' = JUndefined \<longrightarrow>
      map_of (push_options e d) ''vibrate'' =
        Some (JArr [JNum 200, JNum 100, JNum 200])) \<and>
   (field d ''timestamp'' = JUndefined \<longrightarrow>
      map_of (push_options e d) ''timestamp'' = Some (JNum (now e))) \<and>
   (field d ''image'' = JUndefined \<longrightarrow>
      map_of (push_options e d) ''image'' = Some JUndefined) \<and>
   (data \<noteq> JNull \<and> data \<noteq> JUndefined \<and>
    field data ''type'' \<noteq> JStr ''SKIP_WAITING'' \<and>
    field data ''type'' \<noteq> JStr ''GET_CACHE_INFO'' \<and>
    field data ''type'' \<noteq> JStr ''CLEAR_CACHE'' \<and>
    field data ''type'' \<noteq> JStr ''UPDATE_ASSETS'' \<longrightarrow>
      message_listener e st data ports =
        \<lparr>thrown = None, unhandled = None, actions = [], caches = st\<rparr>)"
proof -
  have none: "push_listener e None = \<lparr>raised = None, showNotification = []\<rparr>"
    by (simp add: push_listener_def)
  have call: "d \<noteq> JNull \<and> d \<noteq> JUndefined \<longrightarrow>
      push_listener e (Some (Payload d)) =
        \<lparr>raised = None,
         showNotification =
           [\<lparr>title = or_default (field d ''title'') (JStr ''My PWA''),
             options = push_options e d\<rparr>]\<rparr>"
    by (cases d) (simp_all add: push_listener_def)
  have lacks:
    "d = JBool b \<or> d = JNum i \<or> d = JStr s \<or> d = JArr xs \<longrightarrow> field d k = JUndefined"
    "map_of fs k = None \<longrightarrow> field (JObj fs) k = JUndefined"
    by (auto simp: field_def)
  have title: "field d ''title'' = JUndefined \<longrightarrow>
      or_default (field d ''title'') (JStr ''My PWA'') = JStr ''My PWA''"
    by (simp add: or_default_undefined)
  have opts:
    "field d ''body'' = JUndefined \<longrightarrow>
      map_of (push_options e d) ''body'' = Some (JStr ''New notification'')"
    "field d ''icon'' = JUndefined \<longrightarrow>
      map_of (push_options e d) ''icon'' = Some (JStr ''/assets/images/icon-192.png'')"
    "field d ''data'' = JUndefined \<longrightarrow>
      map_of (push_options e d) ''data'' = Some (JObj [])"
    "field d ''actions'' = JUndefined \<longrightarrow>
      map_of (push_options e d) ''actions'' = Some (JArr [])"
    "field d ''tag'' = JUndefined \<longrightarrow>
      map_of (push_options e d) ''tag'' = Some (JStr ''default'')"
    "field d ''requireInteraction'' = JUndefined \<longrightarrow>
      map_of (push_options e d) ''requireInteraction'' = Some (JBool False)"
    "field d ''silent'' = JUndefined \<longrightarrow>
      map_of (push_options e d) ''silent'' = Some (JBool False)"
    "field d ''vibrate'' = JUndefined \<longrightarrow>
      map_of (push_options e d) ''vibrate'' =
        Some (JArr [JNum 200, JNum 100, JNum 200])"
    "field d ''timestamp'' = JUndefined \<longrightarrow>
      map_of (push_options e d) ''timestamp'' = Some (JNum (now e))"
    "field d ''image'' = JUndefined \<longrightarrow>
      map_of (push_options e d) ''image'' = Some JUndefined"
    by (simp_all add: push_options_def or_default_undefined)
  have msg: "data \<noteq> JNull \<and> data \<noteq> JUndefined \<and>
    field data ''type'' \<noteq> JStr ''SKIP_WAITING'' \<and>
    field data ''type'' \<noteq> JStr ''GET_CACHE_INFO'' \<and>
    field data ''type'' \<noteq> JStr ''CLEAR_CACHE'' \<and>
    field data ''type'' \<noteq> JStr ''UPDATE_ASSETS'' \<longrightarrow>
      message_listener e st data ports =
        \<lparr>thrown = None, unhandled = None, actions = [], caches = st\<rparr>"
    by (cases data) (simp_all add: message_listener_def field_def)
  from none call lacks title opts msg show ?thesis by blast
qed

text \<open>
  An empty object and the number 7 as payloads: both lead to the notification made of
  defaults. A message of the unknown type \<^verbatim>\<open>PING\<close>, and a message that is a string.
\<close>

theorem push_and_message_defaults_witness:
  "push_listener (platform (always NeverSettles)) (Some (Payload (JObj []))) =
     \<lparr>raised = None,
      showNotification =
        [\<lparr>title = JStr ''My PWA'',
          options =
            [(''body'', JStr ''New notification''),
             (''icon'', JStr ''/assets/images/icon-192.png''),
             (''badge'', JStr ''/assets/images/badge-72.png''),
             (''image'', JUndefined),
             (''data'', JObj []),
             (''actions'', JArr []),
             (''tag'', JStr ''default''),
             (''requireInteraction'', JBool False),
             (''silent'', JBool False),
             (''timestamp'', JNum 1704067200000),
             (''vibrate'', JArr [JNum 200, JNum 100, JNum 200])]\<rparr>]\<rparr> \<and>
   push_listener (platform (always NeverSettles)) (Some (Payload (JNum 7))) =
     push_listener (platform (always NeverSettles)) (Some (Payload (JObj []))) \<and>
   message_listener (platform (always NeverSettles)) [(''offline-cache-v1'', [])]
     (JObj [(''type'', JStr ''PING'')]) [] =
     \<lparr>thrown = None, unhandled = None, actions = [], caches = [(''offline-cache-v1'', [])]\<rparr> \<and>
   message_listener (platform (always NeverSettles)) [(''offline-cache-v1'', [])]
     (JStr ''CLEAR_CACHE'') [] =
     \<lparr>thrown = None, unhandled = None, actions = [], caches = [(''offline-cache-v1'', [])]\<rparr>"
  using push_and_message_defaults
          [where e = "platform (always NeverSettles)" and d = "JObj []"
             and data = "JObj [(''type'', JStr ''PING'')]"
             and st = "[(''offline-cache-v1'', [])]" and ports = "[]"]
        push_and_message_defaults
          [where e = "platform (always NeverSettles)" and d = "JNum 7"
             and data = "JStr ''CLEAR_CACHE''"
             and st = "[(''offline-cache-v1'', [])]" and ports = "[]"]
  by (simp add: push_options_def field_def or_default_def platform_def)

end
